theory Spec2Isabelle
  imports Complex_Main "HOL-Library.Word"
begin

section \<open>Values of the script\<close>

text \<open>
  A JavaScript string is a sequence of UTF-16 code units.  String literals of the script
  are ASCII or Latin-1 and are written with \<open>js\<close>, which maps every character to the
  code unit of the same number.  A JavaScript number is modelled by its exact rational
  value (every finite double is a rational); NaN and the infinities are not modelled.
\<close>

type_synonym code_unit = "16 word"
type_synonym js_string = "code_unit list"
type_synonym number = rat

definition js :: "string \<Rightarrow> js_string" where
  "js s = map (\<lambda>c. word_of_nat (of_char c)) s"

section \<open>The weather code classifier\<close>

record weather_info =
  description :: js_string
  icon :: js_string

text \<open>
  \<^verbatim>\<open>getWeatherInfo(code)\<close>, lines 132 to 178: the two variables start at the default
  entry and the first branch of the chain whose test holds overwrites both.
\<close>

definition getWeatherInfo :: "number \<Rightarrow> weather_info" where
  "getWeatherInfo code =
     (if code = 0 then \<lparr>description = js ''Clear Sky'', icon = js ''fa-sun''\<rparr>
      else if code \<ge> 1 \<and> code \<le> 3 then
        \<lparr>description = js ''Partly Cloudy'', icon = js ''fa-cloud-sun''\<rparr>
      else if code \<ge> 45 \<and> code \<le> 48 then
        \<lparr>description = js ''Foggy'', icon = js ''fa-smog''\<rparr>
      else if code \<ge> 51 \<and> code \<le> 55 then
        \<lparr>description = js ''Drizzle'', icon = js ''fa-cloud-rain''\<rparr>
      else if code \<ge> 61 \<and> code \<le> 65 then
        \<lparr>description = js ''Rain'', icon = js ''fa-cloud-showers-heavy''\<rparr>
      else if code \<ge> 71 \<and> code \<le> 77 then
        \<lparr>description = js ''Snow Fall'', icon = js ''fa-snowflake''\<rparr>
      else if code \<ge> 80 \<and> code \<le> 82 then
        \<lparr>description = js ''Rain Showers'', icon = js ''fa-cloud-showers-water''\<rparr>
      else if code \<ge> 95 \<and> code \<le> 99 then
        \<lparr>description = js ''Thunderstorm'', icon = js ''fa-cloud-bolt''\<rparr>
      else \<lparr>description = js ''Unknown'', icon = js ''fa-cloud''\<rparr>)"

text \<open>
  The table of the specification, written from its words: a list of inclusive ranges, a
  description and an icon key per row.  The icon key \<open>k\<close> of the specification stands for
  the icon class \<open>fa-k\<close> that the script returns.
\<close>

type_synonym table_row = "(int \<times> int) list \<times> string \<times> string"

definition entry_of :: "string \<times> string \<Rightarrow> weather_info" where
  "entry_of e = \<lparr>description = js (fst e), icon = js (''fa-'' @ snd e)\<rparr>"

definition unknown_entry :: weather_info where
  "unknown_entry = entry_of (''Unknown'', ''cloud'')"

definition in_ranges :: "int \<Rightarrow> (int \<times> int) list \<Rightarrow> bool" where
  "in_ranges k rs = list_ex (\<lambda>r. fst r \<le> k \<and> k \<le> snd r) rs"

fun table_lookup :: "table_row list \<Rightarrow> int \<Rightarrow> weather_info" where
  "table_lookup [] k = unknown_entry"
| "table_lookup ((rs, e) # rows) k = (if in_ranges k rs then entry_of e else table_lookup rows k)"

text \<open>The rows below the fog row, shared by both readings of the table.\<close>

definition rows_after_fog :: "table_row list" where
  "rows_after_fog =
     [([(51, 55)], ''Drizzle'', ''cloud-rain''),
      ([(61, 65)], ''Rain'', ''cloud-showers-heavy''),
      ([(71, 77)], ''Snow Fall'', ''snowflake''),
      ([(80, 82)], ''Rain Showers'', ''cloud-showers-water''),
      ([(95, 99)], ''Thunderstorm'', ''cloud-bolt'')]"

definition rows_before_fog :: "table_row list" where
  "rows_before_fog =
     [([(0, 0)], ''Clear Sky'', ''sun''),
      ([(1, 3)], ''Partly Cloudy'', ''cloud-sun'')]"

text \<open>The table with the fog row read as the inclusive range 45 to 48.\<close>

definition range_table :: "table_row list" where
  "range_table = rows_before_fog @ [([(45, 48)], ''Foggy'', ''smog'')] @ rows_after_fog"

text \<open>The table with the fog row read as the two codes 45 and 48 only.\<close>

definition two_code_table :: "table_row list" where
  "two_code_table =
     rows_before_fog @ [([(45, 45), (48, 48)], ''Foggy'', ''smog'')] @ rows_after_fog"

text \<open>The codes that the specification lists for the rows of the table.\<close>

definition listed_codes :: "int set" where
  "listed_codes = {0} \<union> {1..3} \<union> {45, 48} \<union> {51..55} \<union> {61..65} \<union> {71..77} \<union> {80..82} \<union> {95..99}"

section \<open>Built-in operations of the platform\<close>

text \<open>
  \<^verbatim>\<open>String.prototype.trim\<close> removes the white space and line terminator code units of
  ECMAScript from both ends: TAB, LF, VT, FF, CR, SPACE, NBSP, the space separators of
  Unicode, the line and paragraph separators and the byte order mark.
\<close>

definition is_white_space :: "code_unit \<Rightarrow> bool" where
  "is_white_space c \<longleftrightarrow>
     c \<in> set [0x9, 0xA, 0xB, 0xC, 0xD, 0x20, 0xA0, 0x1680, 0x2028, 0x2029, 0x202F, 0x205F,
       0x3000, 0xFEFF] \<or> (0x2000 \<le> c \<and> c \<le> 0x200A)"

definition trim :: "js_string \<Rightarrow> js_string" where
  "trim s = rev (dropWhile is_white_space (rev (dropWhile is_white_space s)))"

text \<open>
  \<^verbatim>\<open>Math.round\<close> returns the closest integer, the larger one at a tie.
\<close>

definition Math_round :: "number \<Rightarrow> number" where
  "Math_round x = of_int \<lfloor>x + 1 / 2\<rfloor>"

text \<open>
  Conversion of a number to a string: the shortest digits that read back as the same
  number.  Every integer below \<open>2 ^ 53\<close> in magnitude is a number of its own, so its
  shortest digits are its decimal digits.  The digits of any other number, a larger
  integer included, are left to the platform, as the parameter \<open>print\<close>.
\<close>

definition digit :: "nat \<Rightarrow> code_unit" where
  "digit d = word_of_nat (48 + d)"

function digits :: "nat \<Rightarrow> js_string" where
  "digits n = (if n < 10 then [digit n] else digits (n div 10) @ [digit (n mod 10)])"
  by pat_completeness auto
termination
  by (relation "measure id") auto

declare digits.simps [simp del]

definition int_toString :: "int \<Rightarrow> js_string" where
  "int_toString i = (if i < 0 then js ''-'' @ digits (nat (- i)) else digits (nat i))"

definition Number_toString :: "(number \<Rightarrow> js_string) \<Rightarrow> number \<Rightarrow> js_string" where
  "Number_toString print x =
     (if x = of_int \<lfloor>x\<rfloor> \<and> \<bar>x\<bar> < 2 ^ 53 then int_toString \<lfloor>x\<rfloor> else print x)"

section \<open>The page and the effects of the script\<close>

text \<open>
  The three panels carry the class \<open>hidden\<close> or not; the other elements selected in lines
  6 to 21 carry a text.  Every call that reaches outside the script is appended to
  \<open>effects\<close>, so that what a handler did can be read off, in order:
  \<open>Fetch_geocoding\<close> and \<open>Fetch_weather\<close> stand for the calls of \<open>fetchGeocoding\<close>
  and \<open>fetchWeather\<close>, with their arguments.
\<close>

datatype panel = WeatherContainer | ErrorContainer | LoadingIndicator

datatype field = CityNameEl | DateEl | TempEl | WeatherDescEl | HumidityEl | WindSpeedEl
  | FeelsLikeEl | ErrorTextEl

datatype effect =
    Add_hidden panel
  | Remove_hidden panel
  | Set_textContent field js_string
  | Set_icon_className js_string
  | Fetch_geocoding js_string
  | Fetch_weather number number
  | Console_error js_string

record page =
  cityInput_value :: js_string
  hidden :: "panel \<Rightarrow> bool"
  textContent :: "field \<Rightarrow> js_string"
  weatherIcon_className :: js_string
  effects :: "effect list"

definition emit :: "effect \<Rightarrow> page \<Rightarrow> page" where
  "emit e w = w\<lparr>effects := effects w @ [e]\<rparr>"

definition classList_add_hidden :: "panel \<Rightarrow> page \<Rightarrow> page" where
  "classList_add_hidden p w = emit (Add_hidden p) (w\<lparr>hidden := (hidden w)(p := True)\<rparr>)"

definition classList_remove_hidden :: "panel \<Rightarrow> page \<Rightarrow> page" where
  "classList_remove_hidden p w = emit (Remove_hidden p) (w\<lparr>hidden := (hidden w)(p := False)\<rparr>)"

definition set_textContent :: "field \<Rightarrow> js_string \<Rightarrow> page \<Rightarrow> page" where
  "set_textContent f s w = emit (Set_textContent f s) (w\<lparr>textContent := (textContent w)(f := s)\<rparr>)"

definition set_icon_className :: "js_string \<Rightarrow> page \<Rightarrow> page" where
  "set_icon_className s w = emit (Set_icon_className s) (w\<lparr>weatherIcon_className := s\<rparr>)"

definition console_error :: "js_string \<Rightarrow> page \<Rightarrow> page" where
  "console_error message w = emit (Console_error message) w"

section \<open>The two providers\<close>

text \<open>
  A settled promise is either rejected with an error, of which the script reads the
  message only, or fulfilled with a value.  A response has the flag \<open>ok\<close> and a body
  that \<open>json()\<close> parses or rejects.  Parsed bodies have the shape the script reads; the
  field \<open>results\<close> may be absent.
\<close>

type_synonym 'a promise = "js_string + 'a"

record 'a response =
  ok :: bool
  json :: "'a promise"

record geo_result =
  name :: js_string
  latitude :: number
  longitude :: number
  country :: js_string

record geo_data =
  results :: "geo_result list option"

record current_conditions =
  temperature_2m :: number
  relative_humidity_2m :: number
  apparent_temperature :: number
  weather_code :: number
  wind_speed_10m :: number

record weather_data =
  current :: current_conditions

text \<open>
  What one search meets outside the script: the settled \<open>fetch\<close> of each of the two
  requests (\<open>Inl\<close> when building the address or the transport fails), the formatted date
  of the day and the platform's printing of the numbers that are not integers below
  \<open>2 ^ 53\<close> in magnitude.
\<close>

record environment =
  geocoding :: "js_string \<Rightarrow> geo_data response promise"
  forecast :: "number \<Rightarrow> number \<Rightarrow> weather_data response promise"
  today :: js_string
  fraction_toString :: "number \<Rightarrow> js_string"

text \<open>\<^verbatim>\<open>fetchGeocoding\<close>, lines 80 to 83, from the settled \<open>fetch\<close> on.\<close>

definition fetchGeocoding :: "geo_data response promise \<Rightarrow> geo_data promise" where
  "fetchGeocoding fetched =
     (case fetched of
        Inl message \<Rightarrow> Inl message
      | Inr response \<Rightarrow>
          if \<not> ok response then Inl (js ''Geocoding service unavailable'')
          else json response)"

text \<open>\<^verbatim>\<open>fetchWeather\<close>, lines 91 to 93, from the settled \<open>fetch\<close> on.\<close>

definition fetchWeather :: "weather_data response promise \<Rightarrow> weather_data promise" where
  "fetchWeather fetched =
     (case fetched of
        Inl message \<Rightarrow> Inl message
      | Inr response \<Rightarrow>
          if \<not> ok response then Inl (js ''Weather service unavailable'')
          else json response)"

section \<open>Rendering\<close>

text \<open>
  The suffix of the template at line 111, as the source file has it (the two characters
  after the closing brace of the substitution).
\<close>

definition feels_like_suffix :: js_string where
  "feels_like_suffix = [0xC2, 0xB0]"

text \<open>\<^verbatim>\<open>updateUI(city, country, data)\<close>, lines 99 to 122, statement by statement.\<close>

definition updateUI :: "environment \<Rightarrow> js_string \<Rightarrow> js_string \<Rightarrow> weather_data \<Rightarrow> page \<Rightarrow> page" where
  "updateUI env city country' data w =
     (let cur = current data;
          str = Number_toString (fraction_toString env);
          w1 = set_textContent CityNameEl (city @ js '', '' @ country') w;
          w2 = set_textContent DateEl (today env) w1;
          w3 = set_textContent TempEl (str (Math_round (temperature_2m cur))) w2;
          w4 = set_textContent HumidityEl (str (relative_humidity_2m cur) @ js ''%'') w3;
          w5 = set_textContent WindSpeedEl (str (wind_speed_10m cur) @ js '' km/h'') w4;
          w6 = set_textContent FeelsLikeEl
                 (str (Math_round (apparent_temperature cur)) @ feels_like_suffix) w5;
          weatherInfo = getWeatherInfo (weather_code cur);
          w7 = set_textContent WeatherDescEl (description weatherInfo) w6;
          w8 = set_icon_className (js ''fa-solid '' @ icon weatherInfo) w7
      in classList_remove_hidden WeatherContainer w8)"

text \<open>\<^verbatim>\<open>showError(message)\<close>, lines 125 to 128.\<close>

definition showError :: "js_string \<Rightarrow> page \<Rightarrow> page" where
  "showError message w =
     classList_remove_hidden ErrorContainer (set_textContent ErrorTextEl message w)"

section \<open>The search handler\<close>

text \<open>
  \<^verbatim>\<open>handleSearch\<close> is an asynchronous function: it runs to its first \<open>await\<close>, and is
  resumed when the awaited promise settles.  Each of the three pieces below runs without
  interruption; other handlers can run between two pieces.  The helper functions are
  awaited at once, so that the page is not touched between the settling of a \<open>fetch\<close>
  and the resumption of \<open>handleSearch\<close>.
\<close>

text \<open>The \<open>catch\<close> block, lines 63 to 66, and the \<open>finally\<close> block, lines 67 to 70.\<close>

definition catch_block :: "js_string \<Rightarrow> page \<Rightarrow> page" where
  "catch_block message w = showError message (console_error message w)"

definition finally_block :: "page \<Rightarrow> page" where
  "finally_block w = classList_add_hidden LoadingIndicator w"

definition not_found_message :: "js_string \<Rightarrow> js_string" where
  \<open>not_found_message city = js ''City "'' @ city @ js ''" not found''\<close>

text \<open>
  Lines 35 to 47, up to the request of \<open>fetchGeocoding\<close>: \<open>None\<close> when the handler
  returns at the guard, the trimmed city when it waits for the geocoder.
\<close>

definition handleSearch_start :: "page \<Rightarrow> js_string option \<times> page" where
  "handleSearch_start w =
     (let city = trim (cityInput_value w) in
      if city = [] then (None, w)
      else
        let w1 = classList_add_hidden WeatherContainer w;
            w2 = classList_add_hidden ErrorContainer w1;
            w3 = classList_remove_hidden LoadingIndicator w2
        in (Some city, emit (Fetch_geocoding city) w3))"

definition after_start :: "page \<Rightarrow> page" where
  "after_start w = snd (handleSearch_start w)"

text \<open>
  Lines 47 to 58, from the settled geocoding request to the request of \<open>fetchWeather\<close>:
  the first result when the handler waits for the weather, \<open>None\<close> when it has thrown,
  and so has run the \<open>catch\<close> and \<open>finally\<close> blocks.
\<close>

definition handleSearch_geocoded ::
    "js_string \<Rightarrow> geo_data response promise \<Rightarrow> page \<Rightarrow> geo_result option \<times> page" where
  "handleSearch_geocoded city fetched w =
     (case fetchGeocoding fetched of
        Inl message \<Rightarrow> (None, finally_block (catch_block message w))
      | Inr geoData \<Rightarrow>
          (case results geoData of
             None \<Rightarrow> (None, finally_block (catch_block (not_found_message city) w))
           | Some [] \<Rightarrow> (None, finally_block (catch_block (not_found_message city) w))
           | Some (first # others) \<Rightarrow>
               (Some first, emit (Fetch_weather (latitude first) (longitude first)) w)))"

text \<open>Lines 58 to 70, from the settled weather request to the end.\<close>

definition handleSearch_weathered ::
    "environment \<Rightarrow> geo_result \<Rightarrow> weather_data response promise \<Rightarrow> page \<Rightarrow> page" where
  "handleSearch_weathered env first fetched w =
     (case fetchWeather fetched of
        Inl message \<Rightarrow> finally_block (catch_block message w)
      | Inr weatherData \<Rightarrow>
          finally_block (updateUI env (name first) (country first) weatherData w))"

text \<open>
  \<^verbatim>\<open>handleSearch\<close> when no other handler runs between its pieces: each piece is
  resumed with what the provider of the search answers.
\<close>

definition handleSearch :: "environment \<Rightarrow> page \<Rightarrow> page" where
  "handleSearch env w =
     (case handleSearch_start w of
        (None, w0) \<Rightarrow> w0
      | (Some city, w1) \<Rightarrow>
          (case handleSearch_geocoded city (geocoding env city) w1 of
             (None, w2) \<Rightarrow> w2
           | (Some first, w2) \<Rightarrow>
               handleSearch_weathered env first
                 (forecast env (latitude first) (longitude first)) w2))"

text \<open>
  The pages of that search at the points where the handler is suspended or has
  returned, in order.
\<close>

definition search_states :: "environment \<Rightarrow> page \<Rightarrow> page list" where
  "search_states env w =
     (case handleSearch_start w of
        (None, w0) \<Rightarrow> [w0]
      | (Some city, w1) \<Rightarrow>
          (case handleSearch_geocoded city (geocoding env city) w1 of
             (None, w2) \<Rightarrow> [w1, w2]
           | (Some first, w2) \<Rightarrow>
               [w1, w2,
                handleSearch_weathered env first
                  (forecast env (latitude first) (longitude first)) w2]))"

text \<open>The effects of one search: what it appended to the effects of the page.\<close>

definition search_effects :: "environment \<Rightarrow> page \<Rightarrow> effect list" where
  "search_effects env w = drop (length (effects w)) (effects (handleSearch env w))"


text \<open>The two listeners of lines 25 to 30.\<close>

datatype ui_event = Click | Keypress js_string

definition dispatch :: "environment \<Rightarrow> ui_event \<Rightarrow> page \<Rightarrow> page" where
  "dispatch env ev w =
     (case ev of
        Click \<Rightarrow> handleSearch env w
      | Keypress key \<Rightarrow> if key = js ''Enter'' then handleSearch env w else w)"

text \<open>
  The first result of the geocoder for a city, when the call succeeded and the list has
  one: the condition under which \<open>handleSearch\<close> goes on to the weather.
\<close>

definition first_result :: "environment \<Rightarrow> js_string \<Rightarrow> geo_result option" where
  "first_result env city =
     (case fetchGeocoding (geocoding env city) of
        Inl message \<Rightarrow> None
      | Inr geoData \<Rightarrow>
          (case results geoData of
             None \<Rightarrow> None
           | Some [] \<Rightarrow> None
           | Some (first # others) \<Rightarrow> Some first))"

section \<open>The states of the interface\<close>

text \<open>
  The four states of the specification, read off the three panels: a panel is visible
  when it does not carry the class \<open>hidden\<close>.
\<close>

datatype ui_state = Idle | Loading | Result | Error

definition visible :: "page \<Rightarrow> panel \<Rightarrow> bool" where
  "visible w p = (\<not> hidden w p)"

definition visible_panels :: "page \<Rightarrow> panel list" where
  "visible_panels w = filter (visible w) [LoadingIndicator, WeatherContainer, ErrorContainer]"

definition at_most_one_visible :: "page \<Rightarrow> bool" where
  "at_most_one_visible w = (length (visible_panels w) \<le> 1)"

definition state_of :: "page \<Rightarrow> ui_state option" where
  "state_of w =
     (case visible_panels w of
        [] \<Rightarrow> Some Idle
      | [LoadingIndicator] \<Rightarrow> Some Loading
      | [WeatherContainer] \<Rightarrow> Some Result
      | [ErrorContainer] \<Rightarrow> Some Error
      | _ \<Rightarrow> None)"

text \<open>
  A session of searches that do not overlap: the user sets the input field and submits,
  and submits again only after the search before has ended.
\<close>

fun session :: "(js_string \<times> environment) list \<Rightarrow> page \<Rightarrow> page list" where
  "session [] w = []"
| "session ((v, env) # rest) w =
     search_states env (w\<lparr>cityInput_value := v\<rparr>)
       @ session rest (handleSearch env (w\<lparr>cityInput_value := v\<rparr>))"

text \<open>
  Two searches that overlap: the second is submitted while the first waits for the
  geocoder; the first is then served to its end, and the second after it.
\<close>

definition overlapping_states :: "environment \<Rightarrow> environment \<Rightarrow> page \<Rightarrow> page list" where
  "overlapping_states env1 env2 w =
     (case handleSearch_start w of
        (None, w1) \<Rightarrow> [w1]
      | (Some city1, w1) \<Rightarrow>
     (case handleSearch_start w1 of
        (None, w2) \<Rightarrow> [w1, w2]
      | (Some city2, w2) \<Rightarrow>
     (case handleSearch_geocoded city1 (geocoding env1 city1) w2 of
        (None, w3) \<Rightarrow> [w1, w2, w3]
      | (Some first1, w3) \<Rightarrow>
     (let w4 = handleSearch_weathered env1 first1
                 (forecast env1 (latitude first1) (longitude first1)) w3
      in case handleSearch_geocoded city2 (geocoding env2 city2) w4 of
        (None, w5) \<Rightarrow> [w1, w2, w3, w4, w5]
      | (Some first2, w5) \<Rightarrow>
          [w1, w2, w3, w4, w5,
           handleSearch_weathered env2 first2
             (forecast env2 (latitude first2) (longitude first2)) w5]))))"

text \<open>
  A search ends in the error state with a message: the error panel alone is visible, the
  search has written the message into the error text, and it is what the text holds.
\<close>

definition ends_in_error :: "environment \<Rightarrow> page \<Rightarrow> js_string \<Rightarrow> bool" where
  "ends_in_error env w message \<longleftrightarrow>
     state_of (handleSearch env w) = Some Error
     \<and> textContent (handleSearch env w) ErrorTextEl = message
     \<and> Set_textContent ErrorTextEl message \<in> set (search_effects env w)"

section \<open>Concrete pages and providers\<close>

definition blank_page :: page where
  "blank_page =
     \<lparr>cityInput_value = [], hidden = (\<lambda>p. True), textContent = (\<lambda>f. []),
      weatherIcon_className = [], effects = []\<rparr>"

definition paris_page :: page where
  "paris_page = blank_page\<lparr>cityInput_value := js '' Paris ''\<rparr>"

text \<open>A page whose input holds a space, a tab and an ideographic space.\<close>

definition spaces_page :: page where
  "spaces_page = blank_page\<lparr>cityInput_value := [0x20, 0x9, 0x3000]\<rparr>"

definition paris :: geo_result where
  "paris = \<lparr>name = js ''Paris'', latitude = 48.85, longitude = 2.35, country = js ''France''\<rparr>"

definition mild_weather :: weather_data where
  "mild_weather =
     \<lparr>current = \<lparr>temperature_2m = 23.4, relative_humidity_2m = 65,
        apparent_temperature = 21.6, weather_code = 46, wind_speed_10m = 12.5\<rparr>\<rparr>"


definition plain_fraction :: "number \<Rightarrow> js_string" where
  "plain_fraction x = (if x = 12.5 then js ''12.5'' else js ''?'')"

text \<open>Both calls succeed.\<close>

definition env_success :: environment where
  "env_success =
     \<lparr>geocoding = (\<lambda>city. Inr \<lparr>ok = True, json = Inr \<lparr>results = Some [paris]\<rparr>\<rparr>),
      forecast = (\<lambda>lat lon. Inr \<lparr>ok = True, json = Inr mild_weather\<rparr>),
      today = js ''Tuesday, Nov 3'', fraction_toString = plain_fraction\<rparr>"

text \<open>The geocoder answers with a status that is not a success.\<close>

definition env_geocoding_down :: environment where
  "env_geocoding_down =
     env_success\<lparr>geocoding := (\<lambda>city. Inr \<lparr>ok = False, json = Inl (js ''no body'')\<rparr>)\<rparr>"

text \<open>The geocoder succeeds with an empty list, and with no list.\<close>

definition env_no_match :: environment where
  "env_no_match =
     env_success\<lparr>geocoding := (\<lambda>city. Inr \<lparr>ok = True, json = Inr \<lparr>results = Some []\<rparr>\<rparr>)\<rparr>"


text \<open>The weather provider answers with a status that is not a success.\<close>

definition env_weather_down :: environment where
  "env_weather_down =
     env_success\<lparr>forecast := (\<lambda>lat lon. Inr \<lparr>ok = False, json = Inl (js ''no body'')\<rparr>)\<rparr>"

text \<open>The transport fails before any response.\<close>

definition env_offline :: environment where
  "env_offline = env_success\<lparr>geocoding := (\<lambda>city. Inl (js ''Failed to fetch''))\<rparr>"

text \<open>The geocoder succeeds with a body that does not parse.\<close>

definition env_geocoding_garbled :: environment where
  "env_geocoding_garbled =
     env_success\<lparr>geocoding := (\<lambda>city. Inr \<lparr>ok = True, json = Inl (js ''Unexpected token'')\<rparr>)\<rparr>"

text \<open>The transport fails at the weather request, after a successful geocoding.\<close>

definition env_weather_offline :: environment where
  "env_weather_offline = env_success\<lparr>forecast := (\<lambda>lat lon. Inl (js ''Failed to fetch''))\<rparr>"

text \<open>The weather provider succeeds with a body that does not parse.\<close>

definition env_weather_garbled :: environment where
  "env_weather_garbled =
     env_success\<lparr>forecast := (\<lambda>lat lon. Inr \<lparr>ok = True, json = Inl (js ''Unexpected token'')\<rparr>)\<rparr>"

section \<open>Projections of the primitive operations\<close>

lemma emit_simps [simp]:
  "effects (emit e w) = effects w @ [e]"
  "hidden (emit e w) = hidden w"
  "textContent (emit e w) = textContent w"
  "weatherIcon_className (emit e w) = weatherIcon_className w"
  "cityInput_value (emit e w) = cityInput_value w"
  by (simp_all add: emit_def)

lemma classList_add_hidden_simps [simp]:
  "effects (classList_add_hidden p w) = effects w @ [Add_hidden p]"
  "hidden (classList_add_hidden p w) = (hidden w)(p := True)"
  "textContent (classList_add_hidden p w) = textContent w"
  "weatherIcon_className (classList_add_hidden p w) = weatherIcon_className w"
  "cityInput_value (classList_add_hidden p w) = cityInput_value w"
  by (simp_all add: classList_add_hidden_def)

lemma classList_remove_hidden_simps [simp]:
  "effects (classList_remove_hidden p w) = effects w @ [Remove_hidden p]"
  "hidden (classList_remove_hidden p w) = (hidden w)(p := False)"
  "textContent (classList_remove_hidden p w) = textContent w"
  "weatherIcon_className (classList_remove_hidden p w) = weatherIcon_className w"
  "cityInput_value (classList_remove_hidden p w) = cityInput_value w"
  by (simp_all add: classList_remove_hidden_def)

lemma set_textContent_simps [simp]:
  "effects (set_textContent f s w) = effects w @ [Set_textContent f s]"
  "hidden (set_textContent f s w) = hidden w"
  "textContent (set_textContent f s w) = (textContent w)(f := s)"
  "weatherIcon_className (set_textContent f s w) = weatherIcon_className w"
  "cityInput_value (set_textContent f s w) = cityInput_value w"
  by (simp_all add: set_textContent_def)

lemma set_icon_className_simps [simp]:
  "effects (set_icon_className s w) = effects w @ [Set_icon_className s]"
  "hidden (set_icon_className s w) = hidden w"
  "textContent (set_icon_className s w) = textContent w"
  "weatherIcon_className (set_icon_className s w) = s"
  "cityInput_value (set_icon_className s w) = cityInput_value w"
  by (simp_all add: set_icon_className_def)

lemma console_error_simps [simp]:
  "effects (console_error m w) = effects w @ [Console_error m]"
  "hidden (console_error m w) = hidden w"
  "textContent (console_error m w) = textContent w"
  "weatherIcon_className (console_error m w) = weatherIcon_className w"
  "cityInput_value (console_error m w) = cityInput_value w"
  by (simp_all add: console_error_def)

section \<open>The blocks of the handler\<close>

lemma catch_block_simps [simp]:
  "effects (catch_block m w) =
     effects w @ [Console_error m, Set_textContent ErrorTextEl m, Remove_hidden ErrorContainer]"
  "hidden (catch_block m w) = (hidden w)(ErrorContainer := False)"
  "textContent (catch_block m w) = (textContent w)(ErrorTextEl := m)"
  by (simp_all add: catch_block_def showError_def)

lemma finally_block_simps [simp]:
  "effects (finally_block w) = effects w @ [Add_hidden LoadingIndicator]"
  "hidden (finally_block w) = (hidden w)(LoadingIndicator := True)"
  "textContent (finally_block w) = textContent w"
  by (simp_all add: finally_block_def)

lemma updateUI_effects:
  "effects (updateUI env city co d w) =
     effects w @
     [Set_textContent CityNameEl (city @ js '', '' @ co),
      Set_textContent DateEl (today env),
      Set_textContent TempEl
        (Number_toString (fraction_toString env) (Math_round (temperature_2m (current d)))),
      Set_textContent HumidityEl
        (Number_toString (fraction_toString env) (relative_humidity_2m (current d)) @ js ''%''),
      Set_textContent WindSpeedEl
        (Number_toString (fraction_toString env) (wind_speed_10m (current d)) @ js '' km/h''),
      Set_textContent FeelsLikeEl
        (Number_toString (fraction_toString env) (Math_round (apparent_temperature (current d)))
          @ feels_like_suffix),
      Set_textContent WeatherDescEl (description (getWeatherInfo (weather_code (current d)))),
      Set_icon_className (js ''fa-solid '' @ icon (getWeatherInfo (weather_code (current d)))),
      Remove_hidden WeatherContainer]"
  by (simp add: updateUI_def Let_def)

lemma updateUI_hidden:
  "hidden (updateUI env city co d w) = (hidden w)(WeatherContainer := False)"
  by (simp add: updateUI_def Let_def)

lemma updateUI_textContent:
  "textContent (updateUI env city co d w) =
     (textContent w)
       (CityNameEl := city @ js '', '' @ co,
        DateEl := today env,
        TempEl := Number_toString (fraction_toString env) (Math_round (temperature_2m (current d))),
        HumidityEl := Number_toString (fraction_toString env) (relative_humidity_2m (current d)) @ js ''%'',
        WindSpeedEl := Number_toString (fraction_toString env) (wind_speed_10m (current d)) @ js '' km/h'',
        FeelsLikeEl := Number_toString (fraction_toString env) (Math_round (apparent_temperature (current d))) @ feels_like_suffix,
        WeatherDescEl := description (getWeatherInfo (weather_code (current d))))"
  by (simp add: updateUI_def Let_def set_textContent_def emit_def classList_remove_hidden_def
      set_icon_className_def)


lemma trim_empty_iff: "trim s = [] \<longleftrightarrow> (\<forall>c \<in> set s. is_white_space c)"
proof
  assume "trim s = []"
  then have all: "\<forall>c \<in> set (dropWhile is_white_space s). is_white_space c"
    unfolding trim_def rev_is_Nil_conv dropWhile_eq_Nil_conv set_rev .
  have "dropWhile is_white_space s = []"
  proof (rule ccontr)
    assume ne: "dropWhile is_white_space s \<noteq> []"
    then have "\<not> is_white_space (hd (dropWhile is_white_space s))"
      by (rule hd_dropWhile)
    moreover from ne have "hd (dropWhile is_white_space s) \<in> set (dropWhile is_white_space s)"
      by simp
    ultimately show False using all by blast
  qed
  then show "\<forall>c \<in> set s. is_white_space c"
    unfolding dropWhile_eq_Nil_conv .
next
  assume "\<forall>c \<in> set s. is_white_space c"
  then have "dropWhile is_white_space s = []"
    unfolding dropWhile_eq_Nil_conv .
  then show "trim s = []"
    by (simp only: trim_def rev.simps dropWhile.simps)
qed

lemma handleSearch_start_guard:
  "trim (cityInput_value w) = [] \<Longrightarrow> handleSearch_start w = (None, w)"
  by (simp add: handleSearch_start_def)

lemma handleSearch_start_city:
  "trim (cityInput_value w) \<noteq> [] \<Longrightarrow>
     handleSearch_start w = (Some (trim (cityInput_value w)), after_start w)"
  by (simp add: handleSearch_start_def after_start_def Let_def)

lemma after_start_simps:
  assumes "trim (cityInput_value w) \<noteq> []"
  shows "effects (after_start w) =
           effects w @ [Add_hidden WeatherContainer, Add_hidden ErrorContainer,
             Remove_hidden LoadingIndicator, Fetch_geocoding (trim (cityInput_value w))]"
    and "hidden (after_start w) =
           (hidden w)(WeatherContainer := True, ErrorContainer := True, LoadingIndicator := False)"
    and "textContent (after_start w) = textContent w"
  using assms by (simp_all add: handleSearch_start_def after_start_def Let_def)

lemma after_start_value [simp]: "cityInput_value (after_start w) = cityInput_value w"
  by (simp add: after_start_def handleSearch_start_def Let_def)

lemma handleSearch_geocoded_None:
  assumes "first_result env city = None"
  shows "handleSearch_geocoded city (geocoding env city) w =
    (None, finally_block (catch_block
       (case fetchGeocoding (geocoding env city) of
          Inl m \<Rightarrow> m | Inr geoData \<Rightarrow> not_found_message city) w))"
  using assms
  by (auto simp add: handleSearch_geocoded_def first_result_def
      split: sum.splits option.splits list.splits)

lemma handleSearch_geocoded_Some:
  assumes "first_result env city = Some first"
  shows "handleSearch_geocoded city (geocoding env city) w =
    (Some first, emit (Fetch_weather (latitude first) (longitude first)) w)"
  using assms
  by (auto simp add: handleSearch_geocoded_def first_result_def
      split: sum.splits option.splits list.splits)

section \<open>The course of one search\<close>

lemma handleSearch_last: "handleSearch env w = last (search_states env w)"
  unfolding handleSearch_def search_states_def
  by (simp split: prod.splits option.splits)

lemma search_states_guard:
  "trim (cityInput_value w) = [] \<Longrightarrow> search_states env w = [w]"
  by (simp add: search_states_def handleSearch_start_guard)


lemma first_result_None_not_found:
  assumes "geocoding env city = Inr response" and "ok response"
    and "json response = Inr geoData"
    and "results geoData = None \<or> results geoData = Some []"
  shows "first_result env city = None"
    and "fetchGeocoding (geocoding env city) = Inr geoData"
  using assms by (auto simp add: first_result_def fetchGeocoding_def)

lemma first_result_None_not_ok:
  assumes "geocoding env city = Inr response" and "\<not> ok response"
  shows "first_result env city = None"
    and "fetchGeocoding (geocoding env city) = Inl (js ''Geocoding service unavailable'')"
  using assms by (auto simp add: first_result_def fetchGeocoding_def)

lemma search_states_no_place:
  assumes "trim (cityInput_value w) = city" and "city \<noteq> []"
    and "first_result env city = None"
  shows "search_states env w =
    [after_start w,
     finally_block (catch_block
       (case fetchGeocoding (geocoding env city) of
          Inl m \<Rightarrow> m | Inr geoData \<Rightarrow> not_found_message city) (after_start w))]"
  using assms
  by (auto simp add: search_states_def handleSearch_start_city handleSearch_geocoded_def
      first_result_def split: sum.splits option.splits list.splits)

lemma search_states_place:
  assumes "trim (cityInput_value w) = city" and "city \<noteq> []"
    and "first_result env city = Some first"
    and "w2 = emit (Fetch_weather (latitude first) (longitude first)) (after_start w)"
  shows "search_states env w =
    [after_start w, w2,
     case fetchWeather (forecast env (latitude first) (longitude first)) of
       Inl m \<Rightarrow> finally_block (catch_block m w2)
     | Inr d \<Rightarrow> finally_block (updateUI env (name first) (country first) d w2)]"
  using assms
  by (auto simp add: search_states_def handleSearch_start_city handleSearch_geocoded_def
      handleSearch_weathered_def first_result_def split: sum.splits option.splits list.splits)

lemma search_cases [case_names ignored no_place no_weather rendered]:
  obtains
    (ignored) "trim (cityInput_value w) = []" and "search_states env w = [w]"
  | (no_place) m where "trim (cityInput_value w) \<noteq> []"
      and "first_result env (trim (cityInput_value w)) = None"
      and "search_states env w = [after_start w, finally_block (catch_block m (after_start w))]"
  | (no_weather) first m where "trim (cityInput_value w) \<noteq> []"
      and "first_result env (trim (cityInput_value w)) = Some first"
      and "search_states env w =
        [after_start w,
         emit (Fetch_weather (latitude first) (longitude first)) (after_start w),
         finally_block (catch_block m
           (emit (Fetch_weather (latitude first) (longitude first)) (after_start w)))]"
  | (rendered) first d where "trim (cityInput_value w) \<noteq> []"
      and "first_result env (trim (cityInput_value w)) = Some first"
      and "search_states env w =
        [after_start w,
         emit (Fetch_weather (latitude first) (longitude first)) (after_start w),
         finally_block (updateUI env (name first) (country first) d
           (emit (Fetch_weather (latitude first) (longitude first)) (after_start w)))]"
proof (cases "trim (cityInput_value w) = []")
  case True
  then show ?thesis using ignored search_states_guard by blast
next
  case ne: False
  show ?thesis
  proof (cases "first_result env (trim (cityInput_value w))")
    case None
    from search_states_no_place [OF refl ne None] no_place [OF ne None] show ?thesis
      by blast
  next
    case (Some first)
    note st = search_states_place [OF refl ne Some refl]
    show ?thesis
    proof (cases "fetchWeather (forecast env (latitude first) (longitude first))")
      case (Inl m)
      with st no_weather [OF ne Some] show ?thesis by simp
    next
      case (Inr d)
      with st rendered [OF ne Some] show ?thesis by simp
    qed
  qed
qed

lemmas state_defs = state_of_def visible_panels_def visible_def at_most_one_visible_def

lemma state_after_start:
  "trim (cityInput_value w) \<noteq> [] \<Longrightarrow> state_of (after_start w) = Some Loading"
  by (simp add: state_defs after_start_simps)

lemma ends_in_error_no_place:
  assumes "trim (cityInput_value w) = city" and "city \<noteq> []"
    and "first_result env city = None"
  shows "ends_in_error env w
     (case fetchGeocoding (geocoding env city) of
        Inl m \<Rightarrow> m | Inr geoData \<Rightarrow> not_found_message city)"
  using search_states_no_place [OF assms] assms(1,2)
  by (simp add: ends_in_error_def handleSearch_last search_effects_def after_start_simps
      state_defs)

lemma ends_in_error_no_weather:
  assumes "trim (cityInput_value w) = city" and "city \<noteq> []"
    and "first_result env city = Some first"
    and "fetchWeather (forecast env (latitude first) (longitude first)) = Inl m"
  shows "ends_in_error env w m"
  using search_states_place [OF assms(1-3) refl] assms(1,2,4)
  by (simp add: ends_in_error_def handleSearch_last search_effects_def after_start_simps
      state_defs)

lemma rendered_result:
  assumes "trim (cityInput_value w) = city" and "city \<noteq> []"
    and "first_result env city = Some first"
    and "fetchWeather (forecast env (latitude first) (longitude first)) = Inr d"
  shows "state_of (handleSearch env w) = Some Result"
    and "textContent (handleSearch env w) =
      textContent (updateUI env (name first) (country first) d w)"
  using search_states_place [OF assms(1-3) refl] assms(1,2,4)
  by (simp_all add: handleSearch_last after_start_simps state_defs updateUI_hidden
      updateUI_textContent)

section \<open>The panels\<close>

lemma state_of_defined: "state_of w \<noteq> None \<longleftrightarrow> at_most_one_visible w"
  by (simp add: state_defs)

lemma at_most_one_input [simp]:
  "at_most_one_visible (w\<lparr>cityInput_value := v\<rparr>) = at_most_one_visible w"
  by (simp add: state_defs)

lemma search_states_at_most_one:
  assumes "at_most_one_visible w"
  shows "\<forall>s \<in> set (search_states env w). at_most_one_visible s"
proof (cases rule: search_cases [of w env])
  case ignored
  with assms show ?thesis by simp
next
  case (no_place m)
  then show ?thesis by (simp add: after_start_simps state_defs)
next
  case (no_weather first m)
  then show ?thesis by (simp add: after_start_simps state_defs)
next
  case (rendered first d)
  then show ?thesis by (simp add: after_start_simps state_defs updateUI_hidden)
qed

lemma handleSearch_in_states: "handleSearch env w \<in> set (search_states env w)"
  by (cases rule: search_cases [of w env]) (simp_all add: handleSearch_last)

lemma overlapping_states_hidden:
  assumes "trim (cityInput_value w) = city" and "city \<noteq> []"
    and "first_result env1 city = Some first"
    and "fetchWeather (forecast env1 (latitude first) (longitude first)) = Inr d"
    and "first_result env2 city = None"
  shows "hidden (last (overlapping_states env1 env2 w)) =
    (hidden w)(WeatherContainer := False, ErrorContainer := False, LoadingIndicator := True)"
proof -
  have first: "handleSearch_start w = (Some city, after_start w)"
    using handleSearch_start_city [of w] assms(1,2) by simp
  have second: "handleSearch_start (after_start w) = (Some city, after_start (after_start w))"
    using handleSearch_start_city [of "after_start w"] assms(1,2) by simp
  have loading: "hidden (after_start (after_start w)) =
      (hidden w)(WeatherContainer := True, ErrorContainer := True, LoadingIndicator := False)"
    using assms(1,2) by (simp add: after_start_simps)
  show ?thesis
    by (simp add: overlapping_states_def first second handleSearch_geocoded_Some [OF assms(3)]
        handleSearch_geocoded_None [OF assms(5)] handleSearch_weathered_def assms(4)
        updateUI_hidden loading Let_def fun_eq_iff)
qed

section \<open>Rounding and printing\<close>

lemma Math_round_nearest: "\<bar>Math_round x - x\<bar> \<le> 1 / 2"
  unfolding Math_round_def by linarith

lemma Number_toString_round:
  "\<bar>Math_round x\<bar> < 2 ^ 53 \<Longrightarrow>
     Number_toString print (Math_round x) = int_toString \<lfloor>x + 1 / 2\<rfloor>"
  by (simp add: Number_toString_def Math_round_def)

lemma Math_round_examples:
  "Math_round (117 / 5) = 23" "Math_round (108 / 5) = 22"
proof -
  have "\<lfloor>(117 / 5 :: rat) + 1 / 2\<rfloor> = 23" "\<lfloor>(108 / 5 :: rat) + 1 / 2\<rfloor> = 22"
    by linarith+
  then show "Math_round (117 / 5) = 23" "Math_round (108 / 5) = 22"
    unfolding Math_round_def by simp_all
qed

lemma Number_toString_examples:
  "Number_toString print 23 = js ''23''" "Number_toString print 22 = js ''22''"
  by (simp_all add: Number_toString_def int_toString_def digits.simps digit_def js_def)

lemma rendered_examples:
  assumes "t = 23.4" and "a = 21.6"
  shows "Number_toString print (Math_round t) = js ''23''"
    and "Number_toString print (Math_round a) = js ''22''"
proof -
  from assms have "t = 117 / 5" and "a = 108 / 5"
    by simp_all
  then show "Number_toString print (Math_round t) = js ''23''"
    and "Number_toString print (Math_round a) = js ''22''"
    by (simp_all only: Math_round_examples Number_toString_examples)
qed

section \<open>Concrete searches\<close>

lemma paris_page_city: "trim (cityInput_value paris_page) = js ''Paris''"
  by (simp add: paris_page_def blank_page_def trim_def js_def is_white_space_def)

lemma js_Paris: "js ''Paris'' \<noteq> []"
  by (simp add: js_def)

lemma paris_page_not_blank: "trim (cityInput_value paris_page) \<noteq> []"
  using paris_page_city js_Paris by simp

lemma success_place: "first_result env_success (js ''Paris'') = Some paris"
  by (simp add: first_result_def fetchGeocoding_def env_success_def)

lemma success_weather:
  "fetchWeather (forecast env_success (latitude paris) (longitude paris)) = Inr mild_weather"
  by (simp add: fetchWeather_def env_success_def)

lemma offline_place: "first_result env_offline (js ''Paris'') = None"
  by (simp add: first_result_def fetchGeocoding_def env_offline_def)


lemma weather_down_place: "first_result env_weather_down (js ''Paris'') = Some paris"
  by (simp add: first_result_def fetchGeocoding_def env_weather_down_def env_success_def)

lemma success_texts:
  "textContent (handleSearch env_success paris_page) TempEl =
     Number_toString (fraction_toString env_success)
       (Math_round (temperature_2m (current mild_weather)))"
  "textContent (handleSearch env_success paris_page) FeelsLikeEl =
     Number_toString (fraction_toString env_success)
       (Math_round (apparent_temperature (current mild_weather))) @ feels_like_suffix"
  using rendered_result(2) [OF paris_page_city js_Paris success_place success_weather]
  by (simp_all add: updateUI_textContent)

lemma mild_conditions:
  "temperature_2m (current mild_weather) = 23.4"
  "apparent_temperature (current mild_weather) = 21.6"
  by (simp_all add: mild_weather_def)

section \<open>The classifier against the table\<close>

lemmas table_defs = range_table_def two_code_table_def rows_before_fog_def rows_after_fog_def
  in_ranges_def entry_of_def unknown_entry_def

lemma getWeatherInfo_of_int: "getWeatherInfo (of_int k) = table_lookup range_table k"
  by (simp add: getWeatherInfo_def table_defs)


section \<open>The claims\<close>

text \<open>
  C1.  For every integer code the classifier returns the entry of the table: 0 is Clear
  Sky, 1 to 3 Partly Cloudy, 45 to 48 inclusive Foggy, 51 to 55 Drizzle, 61 to 65 Rain,
  71 to 77 Snow Fall, 80 to 82 Rain Showers, 95 to 99 Thunderstorm; in particular 46 and
  47 are Foggy, and 44 and 49 get the default entry.
\<close>

theorem getWeatherInfo_table:
  fixes k :: int
  shows "getWeatherInfo (of_int k) = table_lookup range_table k
    \<and> (k = 0 \<longrightarrow> getWeatherInfo (of_int k) = \<lparr>description = js ''Clear Sky'', icon = js ''fa-sun''\<rparr>)
    \<and> (1 \<le> k \<and> k \<le> 3 \<longrightarrow>
         getWeatherInfo (of_int k) = \<lparr>description = js ''Partly Cloudy'', icon = js ''fa-cloud-sun''\<rparr>)
    \<and> (45 \<le> k \<and> k \<le> 48 \<longrightarrow>
         getWeatherInfo (of_int k) = \<lparr>description = js ''Foggy'', icon = js ''fa-smog''\<rparr>)
    \<and> (51 \<le> k \<and> k \<le> 55 \<longrightarrow>
         getWeatherInfo (of_int k) = \<lparr>description = js ''Drizzle'', icon = js ''fa-cloud-rain''\<rparr>)
    \<and> (61 \<le> k \<and> k \<le> 65 \<longrightarrow>
         getWeatherInfo (of_int k) = \<lparr>description = js ''Rain'', icon = js ''fa-cloud-showers-heavy''\<rparr>)
    \<and> (71 \<le> k \<and> k \<le> 77 \<longrightarrow>
         getWeatherInfo (of_int k) = \<lparr>description = js ''Snow Fall'', icon = js ''fa-snowflake''\<rparr>)
    \<and> (80 \<le> k \<and> k \<le> 82 \<longrightarrow>
         getWeatherInfo (of_int k) =
           \<lparr>description = js ''Rain Showers'', icon = js ''fa-cloud-showers-water''\<rparr>)
    \<and> (95 \<le> k \<and> k \<le> 99 \<longrightarrow>
         getWeatherInfo (of_int k) = \<lparr>description = js ''Thunderstorm'', icon = js ''fa-cloud-bolt''\<rparr>)
    \<and> getWeatherInfo 46 = \<lparr>description = js ''Foggy'', icon = js ''fa-smog''\<rparr>
    \<and> getWeatherInfo 47 = \<lparr>description = js ''Foggy'', icon = js ''fa-smog''\<rparr>
    \<and> getWeatherInfo 44 = \<lparr>description = js ''Unknown'', icon = js ''fa-cloud''\<rparr>
    \<and> getWeatherInfo 49 = \<lparr>description = js ''Unknown'', icon = js ''fa-cloud''\<rparr>"
  by (simp add: getWeatherInfo_def table_defs)

theorem getWeatherInfo_table_witness:
  "getWeatherInfo (of_int 0) = \<lparr>description = js ''Clear Sky'', icon = js ''fa-sun''\<rparr>
   \<and> getWeatherInfo (of_int 2) = \<lparr>description = js ''Partly Cloudy'', icon = js ''fa-cloud-sun''\<rparr>
   \<and> getWeatherInfo (of_int 45) = \<lparr>description = js ''Foggy'', icon = js ''fa-smog''\<rparr>
   \<and> getWeatherInfo (of_int 48) = \<lparr>description = js ''Foggy'', icon = js ''fa-smog''\<rparr>
   \<and> getWeatherInfo (of_int 53) = \<lparr>description = js ''Drizzle'', icon = js ''fa-cloud-rain''\<rparr>
   \<and> getWeatherInfo (of_int 61) = \<lparr>description = js ''Rain'', icon = js ''fa-cloud-showers-heavy''\<rparr>
   \<and> getWeatherInfo (of_int 77) = \<lparr>description = js ''Snow Fall'', icon = js ''fa-snowflake''\<rparr>
   \<and> getWeatherInfo (of_int 81) =
        \<lparr>description = js ''Rain Showers'', icon = js ''fa-cloud-showers-water''\<rparr>
   \<and> getWeatherInfo (of_int 99) = \<lparr>description = js ''Thunderstorm'', icon = js ''fa-cloud-bolt''\<rparr>"
  using getWeatherInfo_table [of 0, THEN conjunct2] getWeatherInfo_table [of 2, THEN conjunct2]
    getWeatherInfo_table [of 45, THEN conjunct2] getWeatherInfo_table [of 48, THEN conjunct2]
    getWeatherInfo_table [of 53, THEN conjunct2] getWeatherInfo_table [of 61, THEN conjunct2]
    getWeatherInfo_table [of 77, THEN conjunct2] getWeatherInfo_table [of 81, THEN conjunct2]
    getWeatherInfo_table [of 99, THEN conjunct2]
  by simp

text \<open>
  C2, as stated, takes 46 for a code outside the listed sets and promises the default
  entry for it; the classifier returns Foggy, which is not the entry of the table read
  with the two codes 45 and 48 either.
\<close>

theorem fog_gap_counterexample:
  "(46::int) \<notin> listed_codes \<and> getWeatherInfo (of_int 46) \<noteq> unknown_entry
   \<and> getWeatherInfo (of_int 46) \<noteq> table_lookup two_code_table 46"
  by (simp add: listed_codes_def getWeatherInfo_def table_defs js_def)

text \<open>
  C2, amended.  For every integer code in the listed sets (0, 1 to 3, 45, 48, 51 to 55,
  61 to 65, 71 to 77, 80 to 82, 95 to 99) the classifier returns the entry of the table,
  which is not the default entry; for 46 and 47 it returns the Foggy entry; for every
  other integer, negative ones and those above 99 included, it returns the default entry.
\<close>

theorem getWeatherInfo_listed_codes:
  fixes k :: int
  shows "(k \<in> listed_codes \<longrightarrow> getWeatherInfo (of_int k) = table_lookup two_code_table k
            \<and> getWeatherInfo (of_int k) \<noteq> unknown_entry)
    \<and> (k = 46 \<or> k = 47 \<longrightarrow> getWeatherInfo (of_int k) = entry_of (''Foggy'', ''smog''))
    \<and> (k \<notin> listed_codes \<and> k \<noteq> 46 \<and> k \<noteq> 47 \<longrightarrow> getWeatherInfo (of_int k) = unknown_entry)"
  by (auto simp add: listed_codes_def getWeatherInfo_def table_defs js_def)

theorem getWeatherInfo_listed_codes_witness:
  "(48::int) \<in> listed_codes \<and> getWeatherInfo (of_int 48) = table_lookup two_code_table 48
   \<and> getWeatherInfo (of_int 47) = entry_of (''Foggy'', ''smog'')
   \<and> (100::int) \<notin> listed_codes \<and> getWeatherInfo (of_int 100) = unknown_entry
   \<and> (-1::int) \<notin> listed_codes \<and> getWeatherInfo (of_int (-1)) = unknown_entry"
  using getWeatherInfo_listed_codes [of 48] getWeatherInfo_listed_codes [of 47]
    getWeatherInfo_listed_codes [of 100] getWeatherInfo_listed_codes [of "-1"]
  by (simp add: listed_codes_def)

text \<open>
  C3.  A search started from an input that is not blank enters the loading state, and
  whatever the providers answer, a rejected promise included, it hides the loading
  indicator exactly once, as its last effect, and ends in the result state or in the
  error state with the indicator hidden.
\<close>

theorem loading_hidden_once:
  assumes "trim (cityInput_value w) \<noteq> []"
  shows "state_of (after_start w) = Some Loading
    \<and> effects (handleSearch env w) = effects w @ search_effects env w
    \<and> count_list (search_effects env w) (Add_hidden LoadingIndicator) = 1
    \<and> last (search_effects env w) = Add_hidden LoadingIndicator
    \<and> hidden (handleSearch env w) LoadingIndicator
    \<and> (state_of (handleSearch env w) = Some Result \<or> state_of (handleSearch env w) = Some Error)"
proof (cases rule: search_cases [of w env])
  case ignored
  with assms show ?thesis by simp
next
  case (no_place m)
  then show ?thesis
    by (simp add: handleSearch_last search_effects_def after_start_simps state_defs)
next
  case (no_weather first m)
  then show ?thesis
    by (simp add: handleSearch_last search_effects_def after_start_simps state_defs)
next
  case (rendered first d)
  then show ?thesis
    by (simp add: handleSearch_last search_effects_def after_start_simps state_defs
        updateUI_effects updateUI_hidden)
qed

theorem loading_hidden_once_witness:
  "trim (cityInput_value paris_page) \<noteq> []
   \<and> state_of (after_start paris_page) = Some Loading
   \<and> count_list (search_effects env_success paris_page) (Add_hidden LoadingIndicator) = 1
   \<and> last (search_effects env_success paris_page) = Add_hidden LoadingIndicator
   \<and> hidden (handleSearch env_success paris_page) LoadingIndicator
   \<and> state_of (handleSearch env_success paris_page) = Some Result
   \<and> count_list (search_effects env_offline paris_page) (Add_hidden LoadingIndicator) = 1
   \<and> last (search_effects env_offline paris_page) = Add_hidden LoadingIndicator
   \<and> hidden (handleSearch env_offline paris_page) LoadingIndicator
   \<and> state_of (handleSearch env_offline paris_page) = Some Error"
proof -
  have shown: "state_of (handleSearch env_success paris_page) = Some Result"
    by (rule rendered_result(1) [OF paris_page_city js_Paris success_place success_weather])
  have failed: "state_of (handleSearch env_offline paris_page) = Some Error"
    using ends_in_error_no_place [OF paris_page_city js_Paris offline_place]
    by (simp add: ends_in_error_def)
  from loading_hidden_once [OF paris_page_not_blank, where env = env_success]
    loading_hidden_once [OF paris_page_not_blank, where env = env_offline]
    paris_page_not_blank shown failed
  show ?thesis
    by blast
qed





text \<open>
  C6.  When the input is empty or holds white space only, a submission by click or by
  the Enter key leaves the page as it is: no panel changes, no text is written, no call
  is made, and the loading state is not entered.
\<close>

theorem blank_input_is_ignored:
  assumes "\<forall>c \<in> set (cityInput_value w). is_white_space c"
  shows "trim (cityInput_value w) = []
    \<and> handleSearch env w = w
    \<and> dispatch env ev w = w
    \<and> search_states env w = [w]
    \<and> search_effects env w = []"
proof -
  have blank: "trim (cityInput_value w) = []"
    using assms by (simp add: trim_empty_iff)
  then have "handleSearch env w = w"
    by (simp add: handleSearch_last search_states_guard)
  then show ?thesis
    using blank
    by (simp add: dispatch_def search_states_guard search_effects_def split: ui_event.splits)
qed

theorem blank_input_is_ignored_witness:
  "list_all is_white_space (cityInput_value spaces_page)
   \<and> trim (cityInput_value spaces_page) = []
   \<and> handleSearch env_success spaces_page = spaces_page
   \<and> dispatch env_success Click spaces_page = spaces_page
   \<and> search_states env_success spaces_page = [spaces_page]
   \<and> dispatch env_success (Keypress (js ''Enter'')) blank_page = blank_page
   \<and> search_effects env_success blank_page = []"
proof -
  have spaces: "\<forall>c \<in> set (cityInput_value spaces_page). is_white_space c"
    by (simp add: spaces_page_def is_white_space_def)
  have blank: "\<forall>c \<in> set (cityInput_value blank_page). is_white_space c"
    by (simp add: blank_page_def)
  note a = blank_input_is_ignored [OF spaces, where env = env_success and ev = Click]
  note b = blank_input_is_ignored [OF blank,
      where env = env_success and ev = "Keypress (js ''Enter'')"]
  from spaces have "list_all is_white_space (cityInput_value spaces_page)"
    unfolding list_all_iff .
  moreover from a have "trim (cityInput_value spaces_page) = []"
    and "handleSearch env_success spaces_page = spaces_page"
    and "dispatch env_success Click spaces_page = spaces_page"
    and "search_states env_success spaces_page = [spaces_page]"
    by (rule conjunct1, rule conjunct2 [THEN conjunct1],
        rule conjunct2 [THEN conjunct2, THEN conjunct1],
        rule conjunct2 [THEN conjunct2, THEN conjunct2, THEN conjunct1])
  moreover from b have "dispatch env_success (Keypress (js ''Enter'')) blank_page = blank_page"
    and "search_effects env_success blank_page = []"
    by (rule conjunct2 [THEN conjunct2, THEN conjunct1],
        rule conjunct2 [THEN conjunct2, THEN conjunct2, THEN conjunct2])
  ultimately show ?thesis
    by (intro conjI)
qed

text \<open>
  C7, as stated, speaks of every point between two pieces of the handlers, those of
  searches that overlap included.  When a second search is submitted while the first
  waits for the geocoder, the first ends with a result and the second with an error,
  the result panel and the error panel are both visible at the end, and none of the
  four states holds.
\<close>

theorem overlapping_searches_two_panels:
  "at_most_one_visible paris_page
   \<and> visible (last (overlapping_states env_success env_geocoding_down paris_page)) WeatherContainer
   \<and> visible (last (overlapping_states env_success env_geocoding_down paris_page)) ErrorContainer
   \<and> \<not> at_most_one_visible (last (overlapping_states env_success env_geocoding_down paris_page))
   \<and> state_of (last (overlapping_states env_success env_geocoding_down paris_page)) = None"
proof -
  have place: "first_result env_success (js ''Paris'') = Some paris"
    by (simp add: first_result_def fetchGeocoding_def env_success_def)
  have weather: "fetchWeather (forecast env_success (latitude paris) (longitude paris))
      = Inr mild_weather"
    by (simp add: fetchWeather_def env_success_def)
  have down: "first_result env_geocoding_down (js ''Paris'') = None"
    by (simp add: first_result_def fetchGeocoding_def env_geocoding_down_def env_success_def)
  have start: "at_most_one_visible paris_page"
    by (simp add: state_defs paris_page_def blank_page_def)
  note overlapping_states_hidden [OF paris_page_city js_Paris place weather down]
  with start show ?thesis
    by (simp add: state_defs)
qed

text \<open>
  C7, amended.  In a session of searches that do not overlap, started from a page with
  at most one of the three panels visible, at most one panel is visible at every point
  where a handler is suspended or has returned, and exactly one of the four states
  holds there.
\<close>

theorem sequential_searches_one_panel:
  assumes "at_most_one_visible w"
  shows "\<forall>s \<in> set (session submissions w). at_most_one_visible s \<and> state_of s \<noteq> None"
  using assms
proof (induction submissions arbitrary: w)
  case Nil
  show ?case by simp
next
  case (Cons submission rest)
  obtain v env where sub: "submission = (v, env)"
    by (cases submission)
  let ?w = "w\<lparr>cityInput_value := v\<rparr>"
  from Cons.prems have start: "at_most_one_visible ?w"
    by simp
  then have here: "\<forall>s \<in> set (search_states env ?w). at_most_one_visible s"
    by (rule search_states_at_most_one)
  with handleSearch_in_states [of env ?w] have "at_most_one_visible (handleSearch env ?w)"
    by blast
  then have "\<forall>s \<in> set (session rest (handleSearch env ?w)).
      at_most_one_visible s \<and> state_of s \<noteq> None"
    by (rule Cons.IH)
  with here show ?case
    unfolding sub using state_of_defined by auto
qed

theorem sequential_searches_one_panel_witness:
  "at_most_one_visible blank_page
   \<and> list_all (\<lambda>s. at_most_one_visible s \<and> state_of s \<noteq> None)
       (session [(js ''Paris'', env_success), (js ''  '', env_success),
          (js ''Paris'', env_no_match)] blank_page)"
proof -
  have start: "at_most_one_visible blank_page"
    by (simp add: state_defs blank_page_def)
  from sequential_searches_one_panel [OF start] start show ?thesis
    unfolding list_all_iff by blast
qed

text \<open>
  C8, as stated, has the apparent temperature 21.6 displayed as the text 22.  The
  temperature 23.4 is displayed as 23, but the text of the apparent temperature is
  longer: the template puts a suffix after the rounded number.
\<close>

theorem feels_like_has_suffix:
  "temperature_2m (current mild_weather) = 23.4
   \<and> apparent_temperature (current mild_weather) = 21.6
   \<and> state_of (handleSearch env_success paris_page) = Some Result
   \<and> textContent (handleSearch env_success paris_page) TempEl = js ''23''
   \<and> textContent (handleSearch env_success paris_page) FeelsLikeEl \<noteq> js ''22''"
proof -
  note shown = rendered_examples [OF mild_conditions, of "fraction_toString env_success"]
  have longer: "js ''22'' @ feels_like_suffix \<noteq> js ''22''"
    by (simp add: feels_like_suffix_def)
  have "textContent (handleSearch env_success paris_page) FeelsLikeEl \<noteq> js ''22''"
    unfolding success_texts shown by (rule longer)
  moreover have "textContent (handleSearch env_success paris_page) TempEl = js ''23''"
    unfolding success_texts shown by (rule refl)
  moreover note rendered_result(1) [OF paris_page_city js_Paris success_place success_weather]
    mild_conditions
  ultimately show ?thesis
    by blast
qed

text \<open>
  C8, amended.  After a successful search the temperature is displayed as the closest
  integer, and the apparent temperature as the closest integer followed by the fixed
  suffix of the template: 23.4 and 21.6 give 23 and 22 followed by the suffix, and every
  rounded value below \<open>2 ^ 53\<close> in magnitude is displayed in its decimal digits.  The
  humidity and the wind speed are printed as the provider gave them, without rounding,
  followed by the percent sign and by a space and km/h.
\<close>

theorem rendered_numbers:
  assumes "trim (cityInput_value w) = city" and "city \<noteq> []"
    and "first_result env city = Some first"
    and "fetchWeather (forecast env (latitude first) (longitude first)) = Inr d"
  shows "state_of (handleSearch env w) = Some Result
    \<and> textContent (handleSearch env w) TempEl =
        Number_toString (fraction_toString env) (Math_round (temperature_2m (current d)))
    \<and> textContent (handleSearch env w) FeelsLikeEl =
        Number_toString (fraction_toString env) (Math_round (apparent_temperature (current d)))
          @ feels_like_suffix
    \<and> \<bar>Math_round (temperature_2m (current d)) - temperature_2m (current d)\<bar> \<le> 1 / 2
    \<and> \<bar>Math_round (apparent_temperature (current d)) - apparent_temperature (current d)\<bar>
        \<le> 1 / 2
    \<and> (\<bar>Math_round (temperature_2m (current d))\<bar> < 2 ^ 53 \<longrightarrow>
         textContent (handleSearch env w) TempEl
           = int_toString \<lfloor>temperature_2m (current d) + 1 / 2\<rfloor>)
    \<and> (\<bar>Math_round (apparent_temperature (current d))\<bar> < 2 ^ 53 \<longrightarrow>
         textContent (handleSearch env w) FeelsLikeEl
           = int_toString \<lfloor>apparent_temperature (current d) + 1 / 2\<rfloor> @ feels_like_suffix)
    \<and> textContent (handleSearch env w) HumidityEl =
        Number_toString (fraction_toString env) (relative_humidity_2m (current d)) @ js ''%''
    \<and> textContent (handleSearch env w) WindSpeedEl =
        Number_toString (fraction_toString env) (wind_speed_10m (current d)) @ js '' km/h''
    \<and> (temperature_2m (current d) = 23.4 \<and> apparent_temperature (current d) = 21.6 \<longrightarrow>
         textContent (handleSearch env w) TempEl = js ''23''
         \<and> textContent (handleSearch env w) FeelsLikeEl = js ''22'' @ feels_like_suffix)"
proof -
  have special: "Number_toString (fraction_toString env)
        (Math_round (temperature_2m (current d))) = js ''23''
      \<and> Number_toString (fraction_toString env)
        (Math_round (apparent_temperature (current d))) = js ''22''"
    if "temperature_2m (current d) = 23.4 \<and> apparent_temperature (current d) = 21.6"
    using that rendered_examples by blast
  have texts: "textContent (handleSearch env w) TempEl =
        Number_toString (fraction_toString env) (Math_round (temperature_2m (current d)))"
    "textContent (handleSearch env w) FeelsLikeEl =
        Number_toString (fraction_toString env) (Math_round (apparent_temperature (current d)))
          @ feels_like_suffix"
    "textContent (handleSearch env w) HumidityEl =
        Number_toString (fraction_toString env) (relative_humidity_2m (current d)) @ js ''%''"
    "textContent (handleSearch env w) WindSpeedEl =
        Number_toString (fraction_toString env) (wind_speed_10m (current d)) @ js '' km/h''"
    using rendered_result(2) [OF assms] by (simp_all add: updateUI_textContent)
  show ?thesis
    unfolding texts
    using rendered_result(1) [OF assms] special Math_round_nearest Number_toString_round
    by blast
qed

theorem rendered_numbers_witness:
  "trim (cityInput_value paris_page) = js ''Paris'' \<and> js ''Paris'' \<noteq> []
   \<and> first_result env_success (js ''Paris'') = Some paris
   \<and> fetchWeather (forecast env_success (latitude paris) (longitude paris)) = Inr mild_weather
   \<and> temperature_2m (current mild_weather) = 23.4
   \<and> apparent_temperature (current mild_weather) = 21.6
   \<and> state_of (handleSearch env_success paris_page) = Some Result
   \<and> textContent (handleSearch env_success paris_page) TempEl = js ''23''
   \<and> textContent (handleSearch env_success paris_page) FeelsLikeEl = js ''22'' @ feels_like_suffix
   \<and> textContent (handleSearch env_success paris_page) HumidityEl = js ''65%''
   \<and> textContent (handleSearch env_success paris_page) WindSpeedEl = js ''12.5 km/h''"
proof -
  note r = rendered_numbers [OF paris_page_city js_Paris success_place success_weather]
  have humidity: "Number_toString (fraction_toString env_success)
      (relative_humidity_2m (current mild_weather)) @ js ''%'' = js ''65%''"
    by (simp add: mild_weather_def Number_toString_def int_toString_def digits.simps digit_def
        js_def)
  have "\<lfloor>25 / 2 :: rat\<rfloor> = 12"
    by linarith
  then have wind: "Number_toString (fraction_toString env_success)
      (wind_speed_10m (current mild_weather)) @ js '' km/h'' = js ''12.5 km/h''"
    by (simp add: mild_weather_def Number_toString_def env_success_def plain_fraction_def js_def)
  from r have "textContent (handleSearch env_success paris_page) HumidityEl =
      Number_toString (fraction_toString env_success)
        (relative_humidity_2m (current mild_weather)) @ js ''%''"
    by blast
  then have h: "textContent (handleSearch env_success paris_page) HumidityEl = js ''65%''"
    by (simp only: humidity)
  from r have "textContent (handleSearch env_success paris_page) WindSpeedEl =
      Number_toString (fraction_toString env_success)
        (wind_speed_10m (current mild_weather)) @ js '' km/h''"
    by blast
  then have v: "textContent (handleSearch env_success paris_page) WindSpeedEl = js ''12.5 km/h''"
    by (simp only: wind)
  from r mild_conditions
  have "state_of (handleSearch env_success paris_page) = Some Result"
    and "textContent (handleSearch env_success paris_page) TempEl = js ''23''"
    and "textContent (handleSearch env_success paris_page) FeelsLikeEl
      = js ''22'' @ feels_like_suffix"
    by blast+
  with h v paris_page_city js_Paris success_place success_weather mild_conditions
  show ?thesis
    by blast
qed



text \<open>
  C10, as stated, lets the error state carry one of three texts only.  When the
  transport fails, the promise of the geocoding request is rejected with a message of
  its own, and the search ends in the error state with that message.
\<close>

theorem rejected_fetch_message:
  \<open>trim (cityInput_value paris_page) = js ''Paris''
   \<and> geocoding env_offline (js ''Paris'') = Inl (js ''Failed to fetch'')
   \<and> state_of (handleSearch env_offline paris_page) = Some Error
   \<and> textContent (handleSearch env_offline paris_page) ErrorTextEl = js ''Failed to fetch''
   \<and> textContent (handleSearch env_offline paris_page) ErrorTextEl \<notin>
        {js ''Geocoding service unavailable'', js ''Weather service unavailable'',
         js ''City "Paris" not found''}\<close>
proof -
  have offline: "geocoding env_offline (js ''Paris'') = Inl (js ''Failed to fetch'')"
    by (simp add: env_offline_def)
  then have "fetchGeocoding (geocoding env_offline (js ''Paris'')) = Inl (js ''Failed to fetch'')"
    by (simp add: fetchGeocoding_def)
  with ends_in_error_no_place [OF paris_page_city js_Paris offline_place]
  have "ends_in_error env_offline paris_page (js ''Failed to fetch'')"
    by simp
  then have state: "state_of (handleSearch env_offline paris_page) = Some Error"
    and message: "textContent (handleSearch env_offline paris_page) ErrorTextEl
      = js ''Failed to fetch''"
    by (simp_all add: ends_in_error_def)
  have other: \<open>js ''Failed to fetch'' \<notin>
      {js ''Geocoding service unavailable'', js ''Weather service unavailable'',
       js ''City "Paris" not found''}\<close>
    by (simp add: js_def)
  from paris_page_city offline state message other show ?thesis
    by (simp only: simp_thms)
qed

text \<open>
  C10, amended.  The message of the error state is the text Geocoding service
  unavailable when the geocoding call answers with a status that is not a success,
  Weather service unavailable when the weather call does, and City, the trimmed input in
  double quotes, not found when the geocoding call succeeds without a result.  These are
  not the only messages: when a promise that the search awaits is rejected, be it a
  request or the parsing of a body, the message is that of the rejection.  In each case
  the search writes the message into the error text.
\<close>

theorem error_message_texts:
  assumes "trim (cityInput_value w) = city" and "city \<noteq> []"
  shows \<open>(geocoding env city = Inr response \<and> \<not> ok response \<longrightarrow>
            ends_in_error env w (js ''Geocoding service unavailable''))
    \<and> (first_result env city = Some first
          \<and> forecast env (latitude first) (longitude first) = Inr response' \<and> \<not> ok response' \<longrightarrow>
            ends_in_error env w (js ''Weather service unavailable''))
    \<and> (geocoding env city = Inr response \<and> ok response \<and> json response = Inr geoData
          \<and> (results geoData = None \<or> results geoData = Some []) \<longrightarrow>
            ends_in_error env w (js ''City "'' @ city @ js ''" not found''))
    \<and> (geocoding env city = Inl message \<longrightarrow> ends_in_error env w message)
    \<and> (geocoding env city = Inr response \<and> ok response \<and> json response = Inl message \<longrightarrow>
            ends_in_error env w message)
    \<and> (first_result env city = Some first
          \<and> forecast env (latitude first) (longitude first) = Inl message \<longrightarrow>
            ends_in_error env w message)
    \<and> (first_result env city = Some first
          \<and> forecast env (latitude first) (longitude first) = Inr response' \<and> ok response'
          \<and> json response' = Inl message \<longrightarrow>
            ends_in_error env w message)\<close>
proof (intro conjI impI)
  assume "geocoding env city = Inr response \<and> \<not> ok response"
  then have "first_result env city = None"
    and "fetchGeocoding (geocoding env city) = Inl (js ''Geocoding service unavailable'')"
    using first_result_None_not_ok by blast+
  with ends_in_error_no_place [OF assms, of env]
  show "ends_in_error env w (js ''Geocoding service unavailable'')"
    by simp
next
  assume a: "first_result env city = Some first
    \<and> forecast env (latitude first) (longitude first) = Inr response' \<and> \<not> ok response'"
  then have "fetchWeather (forecast env (latitude first) (longitude first))
      = Inl (js ''Weather service unavailable'')"
    by (simp add: fetchWeather_def)
  with ends_in_error_no_weather [OF assms] a
  show "ends_in_error env w (js ''Weather service unavailable'')"
    by blast
next
  assume "geocoding env city = Inr response \<and> ok response \<and> json response = Inr geoData
    \<and> (results geoData = None \<or> results geoData = Some [])"
  then have "first_result env city = None"
    and "fetchGeocoding (geocoding env city) = Inr geoData"
    using first_result_None_not_found by blast+
  with ends_in_error_no_place [OF assms, of env]
  show \<open>ends_in_error env w (js ''City "'' @ city @ js ''" not found'')\<close>
    by (simp add: not_found_message_def)
next
  assume "geocoding env city = Inl message"
  then have "first_result env city = None"
    and "fetchGeocoding (geocoding env city) = Inl message"
    by (simp_all add: first_result_def fetchGeocoding_def)
  with ends_in_error_no_place [OF assms, of env]
  show "ends_in_error env w message"
    by simp
next
  assume "geocoding env city = Inr response \<and> ok response \<and> json response = Inl message"
  then have "first_result env city = None"
    and "fetchGeocoding (geocoding env city) = Inl message"
    by (simp_all add: first_result_def fetchGeocoding_def)
  with ends_in_error_no_place [OF assms, of env]
  show "ends_in_error env w message"
    by simp
next
  assume a: "first_result env city = Some first
    \<and> forecast env (latitude first) (longitude first) = Inl message"
  then have "fetchWeather (forecast env (latitude first) (longitude first)) = Inl message"
    by (simp add: fetchWeather_def)
  with ends_in_error_no_weather [OF assms] a
  show "ends_in_error env w message"
    by blast
next
  assume a: "first_result env city = Some first
    \<and> forecast env (latitude first) (longitude first) = Inr response' \<and> ok response'
    \<and> json response' = Inl message"
  then have "fetchWeather (forecast env (latitude first) (longitude first)) = Inl message"
    by (simp add: fetchWeather_def)
  with ends_in_error_no_weather [OF assms] a
  show "ends_in_error env w message"
    by blast
qed

theorem error_message_texts_witness:
  \<open>trim (cityInput_value paris_page) = js ''Paris'' \<and> js ''Paris'' \<noteq> []
   \<and> geocoding env_geocoding_down (js ''Paris'') = Inr \<lparr>ok = False, json = Inl (js ''no body'')\<rparr>
   \<and> ends_in_error env_geocoding_down paris_page (js ''Geocoding service unavailable'')
   \<and> first_result env_weather_down (js ''Paris'') = Some paris
   \<and> forecast env_weather_down (latitude paris) (longitude paris)
       = Inr \<lparr>ok = False, json = Inl (js ''no body'')\<rparr>
   \<and> ends_in_error env_weather_down paris_page (js ''Weather service unavailable'')
   \<and> geocoding env_no_match (js ''Paris'') = Inr \<lparr>ok = True, json = Inr \<lparr>results = Some []\<rparr>\<rparr>
   \<and> ends_in_error env_no_match paris_page (js ''City "Paris" not found'')
   \<and> geocoding env_offline (js ''Paris'') = Inl (js ''Failed to fetch'')
   \<and> ends_in_error env_offline paris_page (js ''Failed to fetch'')
   \<and> geocoding env_geocoding_garbled (js ''Paris'')
       = Inr \<lparr>ok = True, json = Inl (js ''Unexpected token'')\<rparr>
   \<and> ends_in_error env_geocoding_garbled paris_page (js ''Unexpected token'')
   \<and> first_result env_weather_offline (js ''Paris'') = Some paris
   \<and> forecast env_weather_offline (latitude paris) (longitude paris)
       = Inl (js ''Failed to fetch'')
   \<and> ends_in_error env_weather_offline paris_page (js ''Failed to fetch'')
   \<and> first_result env_weather_garbled (js ''Paris'') = Some paris
   \<and> forecast env_weather_garbled (latitude paris) (longitude paris)
       = Inr \<lparr>ok = True, json = Inl (js ''Unexpected token'')\<rparr>
   \<and> ends_in_error env_weather_garbled paris_page (js ''Unexpected token'')\<close>
proof -
  have down: "geocoding env_geocoding_down (js ''Paris'')
      = Inr \<lparr>ok = False, json = Inl (js ''no body'')\<rparr>"
    by (simp add: env_geocoding_down_def)
  have weather: "forecast env_weather_down (latitude paris) (longitude paris)
       = Inr \<lparr>ok = False, json = Inl (js ''no body'')\<rparr>"
    by (simp add: env_weather_down_def)
  have empty: "geocoding env_no_match (js ''Paris'')
      = Inr \<lparr>ok = True, json = Inr \<lparr>results = Some []\<rparr>\<rparr>"
    by (simp add: env_no_match_def)
  have offline: "geocoding env_offline (js ''Paris'') = Inl (js ''Failed to fetch'')"
    by (simp add: env_offline_def)
  have garbled: "geocoding env_geocoding_garbled (js ''Paris'')
      = Inr \<lparr>ok = True, json = Inl (js ''Unexpected token'')\<rparr>"
    by (simp add: env_geocoding_garbled_def)
  have place_offline: "first_result env_weather_offline (js ''Paris'') = Some paris"
    by (simp add: first_result_def fetchGeocoding_def env_weather_offline_def env_success_def)
  have weather_offline: "forecast env_weather_offline (latitude paris) (longitude paris)
      = Inl (js ''Failed to fetch'')"
    by (simp add: env_weather_offline_def)
  have place_garbled: "first_result env_weather_garbled (js ''Paris'') = Some paris"
    by (simp add: first_result_def fetchGeocoding_def env_weather_garbled_def env_success_def)
  have weather_garbled: "forecast env_weather_garbled (latitude paris) (longitude paris)
      = Inr \<lparr>ok = True, json = Inl (js ''Unexpected token'')\<rparr>"
    by (simp add: env_weather_garbled_def)
  have quoted: \<open>js ''City "'' @ js ''Paris'' @ js ''" not found'' = js ''City "Paris" not found''\<close>
    by (simp add: js_def)
  note a = error_message_texts [OF paris_page_city js_Paris,
      where env = env_geocoding_down
        and response = "\<lparr>ok = False, json = Inl (js ''no body'')\<rparr>"]
  note b = error_message_texts [OF paris_page_city js_Paris,
      where env = env_weather_down and first = paris
        and response' = "\<lparr>ok = False, json = Inl (js ''no body'')\<rparr>"]
  note c = error_message_texts [OF paris_page_city js_Paris,
      where env = env_no_match
        and response = "\<lparr>ok = True, json = Inr \<lparr>results = Some []\<rparr>\<rparr>"
        and geoData = "\<lparr>results = Some []\<rparr>"]
  note d = error_message_texts [OF paris_page_city js_Paris,
      where env = env_offline and message = "js ''Failed to fetch''"]
  note e = error_message_texts [OF paris_page_city js_Paris,
      where env = env_geocoding_garbled
        and response = "\<lparr>ok = True, json = Inl (js ''Unexpected token'')\<rparr>"
        and message = "js ''Unexpected token''"]
  note f = error_message_texts [OF paris_page_city js_Paris,
      where env = env_weather_offline and first = paris
        and message = "js ''Failed to fetch''"]
  note g = error_message_texts [OF paris_page_city js_Paris,
      where env = env_weather_garbled and first = paris
        and response' = "\<lparr>ok = True, json = Inl (js ''Unexpected token'')\<rparr>"
        and message = "js ''Unexpected token''"]
  from a down have first: "ends_in_error env_geocoding_down paris_page
      (js ''Geocoding service unavailable'')"
    by simp
  from b weather_down_place weather have second:
    "ends_in_error env_weather_down paris_page (js ''Weather service unavailable'')"
    by simp
  from c empty have "ends_in_error env_no_match paris_page
      (js ''City \"'' @ js ''Paris'' @ js ''\" not found'')"
    by simp
  then have third: "ends_in_error env_no_match paris_page (js ''City \"Paris\" not found'')"
    by (simp only: quoted)
  from d offline have fourth: "ends_in_error env_offline paris_page (js ''Failed to fetch'')"
    by simp
  from e garbled have fifth:
    "ends_in_error env_geocoding_garbled paris_page (js ''Unexpected token'')"
    by simp
  from f place_offline weather_offline have sixth:
    "ends_in_error env_weather_offline paris_page (js ''Failed to fetch'')"
    by simp
  from g place_garbled weather_garbled have seventh:
    "ends_in_error env_weather_garbled paris_page (js ''Unexpected token'')"
    by simp
  show ?thesis
    by (intro conjI) (fact paris_page_city js_Paris down first weather_down_place weather
        second empty third offline fourth garbled fifth place_offline weather_offline sixth
        place_garbled weather_garbled seventh)+
qed

end
